theory Spec2Isabelle
  imports Complex_Main
begin

section \<open>Python values\<close>

text \<open>
  The exceptions that the modelled code can raise through subscripting, attribute access,
  conversion and iteration. \<open>ValueError\<close> also stands for its subclass
  \<open>json.JSONDecodeError\<close>.
\<close>

datatype exn = AttributeError | IndexError | KeyError | TypeError | ValueError

text \<open>
  What \<open>json.loads\<close> and \<open>resp.json()\<close> produce. \<open>JNull\<close> is Python's \<open>None\<close>,
  so a missing key read with \<open>.get\<close> and a key holding \<open>null\<close> give the same value. Numbers
  and prices are finite floats, written by their real value; NaN and the infinities are not
  part of the model. A dict is an association list with distinct keys, read with
  \<open>map_of\<close>. Where the source writes \<open>==\<close> the model compares two values with HOL's
  equality; Python also equates \<open>True\<close> with \<open>1\<close> and \<open>False\<close> with \<open>0\<close>.
\<close>

datatype json =
    JNull
  | JBool bool
  | JNum real
  | JStr string
  | JArr "json list"
  | JObj "(string \<times> json) list"

text \<open>Sequencing of calls that may raise: the first exception wins.\<close>

definition andthen :: "exn + 'a \<Rightarrow> ('a \<Rightarrow> exn + 'b) \<Rightarrow> exn + 'b" where
  "andthen r f = (case r of Inl e \<Rightarrow> Inl e | Inr x \<Rightarrow> f x)"

text \<open>Truth value of an object, as \<open>if x\<close>, \<open>not x\<close> and \<open>x or y\<close> test it.\<close>

fun truthy :: "json \<Rightarrow> bool" where
  "truthy JNull = False"
| "truthy (JBool b) = b"
| "truthy (JNum x) = (x \<noteq> 0)"
| "truthy (JStr s) = (s \<noteq> [])"
| "truthy (JArr xs) = (xs \<noteq> [])"
| "truthy (JObj kvs) = (kvs \<noteq> [])"

text \<open>\<open>d.get(k, default)\<close>: only a dict has the method.\<close>

fun py_get :: "json \<Rightarrow> string \<Rightarrow> json \<Rightarrow> exn + json" where
  "py_get (JObj kvs) k dflt = Inr (case map_of kvs k of None \<Rightarrow> dflt | Some v \<Rightarrow> v)"
| "py_get _ k dflt = Inl AttributeError"

text \<open>\<open>v[i]\<close> with an integer literal \<open>i \<ge> 0\<close>.\<close>

fun py_item :: "json \<Rightarrow> nat \<Rightarrow> exn + json" where
  "py_item (JArr xs) i = (if i < length xs then Inr (xs ! i) else Inl IndexError)"
| "py_item (JStr s) i = (if i < length s then Inr (JStr [s ! i]) else Inl IndexError)"
| "py_item (JObj kvs) i = Inl KeyError"
| "py_item _ i = Inl TypeError"

text \<open>\<open>v['k']\<close> with a string literal.\<close>

fun py_key :: "json \<Rightarrow> string \<Rightarrow> exn + json" where
  "py_key (JObj kvs) k = (case map_of kvs k of None \<Rightarrow> Inl KeyError | Some v \<Rightarrow> Inr v)"
| "py_key _ k = Inl TypeError"

text \<open>The elements a \<open>for\<close> loop visits.\<close>

fun py_iter :: "json \<Rightarrow> exn + json list" where
  "py_iter (JArr xs) = Inr xs"
| "py_iter (JStr s) = Inr (map (\<lambda>c. JStr [c]) s)"
| "py_iter (JObj kvs) = Inr (map (\<lambda>kv. JStr (fst kv)) kvs)"
| "py_iter _ = Inl TypeError"

text \<open>
  \<open>float(v)\<close>. The reading of a string is the parameter \<open>str_float\<close> (\<open>None\<close> where
  \<open>float\<close> raises \<open>ValueError\<close>).
\<close>

fun py_float :: "(string \<Rightarrow> real option) \<Rightarrow> json \<Rightarrow> exn + real" where
  "py_float str_float (JStr s) = (case str_float s of None \<Rightarrow> Inl ValueError | Some x \<Rightarrow> Inr x)"
| "py_float str_float (JNum x) = Inr x"
| "py_float str_float (JBool b) = Inr (if b then 1 else 0)"
| "py_float str_float _ = Inl TypeError"

section \<open>Time helpers (discovery.py)\<close>

text \<open>
  An aware \<open>datetime\<close>. The calendar date is held as its day number (\<open>toordinal()\<close>), the
  time of day by its fields, the zone by its offset from UTC in seconds. The range limit of
  Python's type (years 1 to 9999) is not part of the model.
\<close>

record datetime =
  ordinal :: int
  hour :: int
  minute :: int
  second :: int
  microsecond :: int
  utcoffset :: int

definition valid_datetime :: "datetime \<Rightarrow> bool" where
  "valid_datetime t \<longleftrightarrow>
     0 \<le> hour t \<and> hour t < 24 \<and> 0 \<le> minute t \<and> minute t < 60 \<and>
     0 \<le> second t \<and> second t < 60 \<and> 0 \<le> microsecond t \<and> microsecond t < 1000000"

text \<open>Microseconds on the local clock since the start of day 0.\<close>

definition wall_us :: "datetime \<Rightarrow> int" where
  "wall_us t =
     (ordinal t * 86400 + hour t * 3600 + minute t * 60 + second t) * 1000000 + microsecond t"

text \<open>The instant a datetime denotes, in microseconds of UTC.\<close>

definition instant :: "datetime \<Rightarrow> int" where
  "instant t = wall_us t - utcoffset t * 1000000"

text \<open>
  Comparison of aware datetimes. Python compares the fields when both carry the same zone
  object and the instants otherwise; on valid datetimes of one offset both agree.
\<close>

definition dt_le :: "datetime \<Rightarrow> datetime \<Rightarrow> bool" where
  "dt_le a b \<longleftrightarrow> instant a \<le> instant b"

definition dt_less :: "datetime \<Rightarrow> datetime \<Rightarrow> bool" where
  "dt_less a b \<longleftrightarrow> instant a < instant b"

text \<open>\<open>timedelta(minutes=n)\<close>, in microseconds.\<close>

definition timedelta_minutes :: "int \<Rightarrow> int" where
  "timedelta_minutes n = n * 60 * 1000000"

text \<open>
  \<open>t + delta\<close>: the fields are summed with the delta and carried into days, seconds and
  microseconds, then split again; the zone is kept.
\<close>

definition dt_plus :: "datetime \<Rightarrow> int \<Rightarrow> datetime" where
  "dt_plus t delta =
     (let total = wall_us t + delta;
          days = total div 86400000000;
          rest = total mod 86400000000;
          secs = rest div 1000000
      in \<lparr> ordinal = days, hour = secs div 3600, minute = (secs mod 3600) div 60,
           second = secs mod 60, microsecond = rest mod 1000000,
           utcoffset = utcoffset t \<rparr>)"

definition get_window_boundaries :: "datetime \<Rightarrow> datetime \<times> datetime" where
  "get_window_boundaries now_et =
     (let minute' = (minute now_et div 15) * 15;
          start = now_et\<lparr> minute := minute', second := 0, microsecond := 0 \<rparr>;
          end' = dt_plus start (timedelta_minutes 15)
      in (start, end'))"

text \<open>
  Year, month and day of a day number, for \<open>strftime\<close>: the proleptic Gregorian calendar
  in which day 1 is 0001-01-01, counted in 400-year eras that start on 1 March.
\<close>

definition civil_of_ordinal :: "int \<Rightarrow> int \<times> int \<times> int" where
  "civil_of_ordinal n =
     (let z = n + 305;
          era = z div 146097;
          doe = z - era * 146097;
          yoe = (doe - doe div 1460 + doe div 36524 - doe div 146096) div 365;
          doy = doe - (365 * yoe + yoe div 4 - yoe div 100);
          mp = (5 * doy + 2) div 153;
          d = doy - (153 * mp + 2) div 5 + 1;
          m = (if mp < 10 then mp + 3 else mp - 9);
          y = yoe + era * 400 + (if m \<le> 2 then 1 else 0)
      in (y, m, d))"

definition month_names :: "string list" where
  "month_names =
     [''January'', ''February'', ''March'', ''April'', ''May'', ''June'', ''July'',
      ''August'', ''September'', ''October'', ''November'', ''December'']"

definition two_digits :: "int \<Rightarrow> string" where
  "two_digits n = [char_of (48 + nat (n div 10)), char_of (48 + nat (n mod 10))]"

text \<open>\<open>t.strftime("%B %d")\<close> in the C locale.\<close>

definition strftime_B_d :: "datetime \<Rightarrow> string" where
  "strftime_B_d t =
     (case civil_of_ordinal (ordinal t) of
        (y, m, d) \<Rightarrow> month_names ! nat (m - 1) @ '' '' @ two_digits d)"

text \<open>\<open>t.strftime("%I:%M%p")\<close> in the C locale.\<close>

definition strftime_I_M_p :: "datetime \<Rightarrow> string" where
  "strftime_I_M_p t =
     two_digits (if hour t mod 12 = 0 then 12 else hour t mod 12) @ '':'' @
     two_digits (minute t) @ (if hour t < 12 then ''AM'' else ''PM'')"

text \<open>\<open>s.replace(" 0", " ")\<close>: occurrences are replaced from the left, without overlap.\<close>

fun replace_space_zero :: "string \<Rightarrow> string" where
  "replace_space_zero (a # b # s) =
     (if a = CHR '' '' \<and> b = CHR ''0'' then CHR '' '' # replace_space_zero s
      else a # replace_space_zero (b # s))"
| "replace_space_zero s = s"

text \<open>\<open>s.replace("Z", "+00:00")\<close>.\<close>

definition replace_Z :: "string \<Rightarrow> string" where
  "replace_Z s = concat (map (\<lambda>c. if c = CHR ''Z'' then ''+00:00'' else [c]) s)"

text \<open>\<open>s.lstrip("0")\<close> and \<open>s.upper()\<close> on ASCII text.\<close>

definition lstrip_zero :: "string \<Rightarrow> string" where
  "lstrip_zero s = dropWhile (\<lambda>c. c = CHR ''0'') s"

definition upper :: "string \<Rightarrow> string" where
  "upper s =
     map (\<lambda>c. if 97 \<le> (of_char c :: nat) \<and> (of_char c :: nat) \<le> 122
              then char_of ((of_char c :: nat) - 32) else c) s"

definition title_variants :: "datetime \<Rightarrow> string list" where
  "title_variants start =
     (let date_str = replace_space_zero (strftime_B_d start);
          time_str = upper (lstrip_zero (strftime_I_M_p start))
      in [ ''Bitcoin Up or Down '' @ date_str @ '' '' @ time_str @ '' ET'',
           ''Bitcoin Up or Down - '' @ date_str @ '', '' @ time_str @ '' ET'',
           ''Bitcoin Up or Down - '' @ date_str @ '' '' @ time_str @ '' ET'' ])"

section \<open>Market discovery (discovery.py)\<close>

definition API_URL :: string where
  "API_URL = ''https://gamma-api.polymarket.com/public-search''"

text \<open>
  \<open>urllib.parse.quote_plus\<close>: letters, digits and \<open>_.-~\<close> stay, a space becomes \<open>+\<close>, every
  other byte becomes \<open>%XX\<close> in upper-case hexadecimal.
\<close>

definition hex_digit :: "nat \<Rightarrow> char" where
  "hex_digit n = (if n < 10 then char_of (48 + n) else char_of (55 + n))"

definition unreserved :: "char \<Rightarrow> bool" where
  "unreserved c \<longleftrightarrow>
     (let n = (of_char c :: nat)
      in (48 \<le> n \<and> n \<le> 57) \<or> (65 \<le> n \<and> n \<le> 90) \<or> (97 \<le> n \<and> n \<le> 122)
         \<or> c \<in> set ''_.-~'')"

definition quote_plus :: "string \<Rightarrow> string" where
  "quote_plus q =
     concat (map (\<lambda>c. if c = CHR '' '' then ''+''
                       else if unreserved c then [c]
                       else [CHR ''%'', hex_digit ((of_char c :: nat) div 16),
                             hex_digit ((of_char c :: nat) mod 16)]) q)"

text \<open>
  What one \<open>session.get(url)\<close> gives: a failure of the connection, or a status together
  with what \<open>resp.json()\<close> makes of the body (\<open>None\<close> where it raises).
\<close>

datatype response = NetworkFailure | Http nat "json option"

text \<open>
  The dictionary that \<open>find_active_window\<close> returns. The two times are the instants of
  \<open>start_dt\<close> and \<open>end_dt\<close>, which the source renders with \<open>isoformat()\<close>.
\<close>

record descriptor =
  title :: json
  yes_id :: json
  no_id :: json
  start_time :: int
  end_time :: int
  condition_id :: json
  question_id :: json

text \<open>
  Two library calls are parameters of the discovery functions:
  \<^item> \<open>fromiso s\<close> is the instant of \<open>datetime.fromisoformat(s).astimezone(ET_TZ)\<close>,
    \<open>None\<close> where the call raises \<open>ValueError\<close>;
  \<^item> \<open>loads s\<close> is \<open>json.loads(s)\<close>, \<open>None\<close> where it raises \<open>JSONDecodeError\<close>.
\<close>

text \<open>\<open>x or y\<close>, with \<open>y\<close> evaluated only when \<open>x\<close> is false.\<close>

definition py_or :: "json \<Rightarrow> (exn + json) \<Rightarrow> exn + json" where
  "py_or x y = (if truthy x then Inr x else y)"

text \<open>
  \<open>datetime.fromisoformat(ts.replace("Z", "+00:00")).astimezone(ET_TZ)\<close>: only a string has
  \<open>replace\<close>.
\<close>

fun parse_time :: "(string \<Rightarrow> int option) \<Rightarrow> json \<Rightarrow> exn + int" where
  "parse_time fromiso (JStr s) =
     (case fromiso (replace_Z s) of None \<Rightarrow> Inl ValueError | Some t \<Rightarrow> Inr t)"
| "parse_time fromiso _ = Inl AttributeError"

text \<open>\<open>json.loads(v)\<close>: a value that is not a string is a \<open>TypeError\<close>.\<close>

fun json_loads :: "(string \<Rightarrow> json option) \<Rightarrow> json \<Rightarrow> exn + json" where
  "json_loads loads (JStr s) = (case loads s of None \<Rightarrow> Inl ValueError | Some v \<Rightarrow> Inr v)"
| "json_loads loads _ = Inl TypeError"

text \<open>
  Lines 81 to 92 of the loop body: the first nested market and the two times of a hit.
  \<open>Inr None\<close> is the \<open>continue\<close> of a hit without both timestamps.
\<close>

definition event_times ::
  "(string \<Rightarrow> int option) \<Rightarrow> json \<Rightarrow> exn + (json \<times> int \<times> int) option" where
  "event_times fromiso ev =
     andthen (py_get ev ''markets'' (JArr [JObj []])) (\<lambda>markets.
     andthen (py_item markets 0) (\<lambda>m.
     andthen (andthen (py_get m ''eventStartTime'' JNull)
                (\<lambda>x. py_or x (py_get ev ''startTime'' JNull))) (\<lambda>start_ts.
     andthen (andthen (py_get m ''endDate'' JNull)
                (\<lambda>x. py_or x (py_get ev ''endDate'' JNull))) (\<lambda>end_ts.
     if \<not> truthy start_ts \<or> \<not> truthy end_ts then Inr None
     else
       andthen (parse_time fromiso start_ts) (\<lambda>start_dt.
       andthen (parse_time fromiso end_ts) (\<lambda>end_dt.
       Inr (Some (m, start_dt, end_dt))))))))"

text \<open>Lines 101 to 112: the descriptor built from an accepted hit.\<close>

definition make_descriptor ::
  "(string \<Rightarrow> json option) \<Rightarrow> json \<Rightarrow> json \<Rightarrow> int \<Rightarrow> int \<Rightarrow> exn + descriptor" where
  "make_descriptor loads ev m start_dt end_dt =
     andthen (andthen (py_key m ''clobTokenIds'') (json_loads loads)) (\<lambda>token_ids.
     andthen (py_get ev ''title'' (JStr ''BTC 15m'')) (\<lambda>title'.
     andthen (py_item token_ids 0) (\<lambda>yes.
     andthen (py_item token_ids 1) (\<lambda>no.
     andthen (py_get m ''conditionId'' JNull) (\<lambda>cond.
     andthen (py_get m ''questionID'' JNull) (\<lambda>quest.
     Inr \<lparr> title = title', yes_id = yes, no_id = no, start_time = start_dt,
           end_time = end_dt, condition_id = cond, question_id = quest \<rparr>))))))"

text \<open>\<open>delta.total_seconds()\<close> of a difference of two datetimes, given in microseconds.\<close>

definition total_seconds :: "int \<Rightarrow> real" where
  "total_seconds delta = real_of_int delta / 1000000"

text \<open>
  Filter 2, line 100: a live hit is returned, any other falls through to the next hit.
\<close>

definition liveness_filter ::
  "(string \<Rightarrow> json option) \<Rightarrow> int \<Rightarrow> json \<Rightarrow> json \<Rightarrow> int \<Rightarrow> int \<Rightarrow> exn + descriptor option" where
  "liveness_filter loads now ev m start_dt end_dt =
     (if start_dt \<le> now \<and> now < end_dt
      then andthen (make_descriptor loads ev m start_dt end_dt) (\<lambda>d. Inr (Some d))
      else Inr None)"

text \<open>Filter 1, lines 95 to 97, followed by filter 2.\<close>

definition duration_filter ::
  "(string \<Rightarrow> json option) \<Rightarrow> int \<Rightarrow> json \<Rightarrow> json \<Rightarrow> int \<Rightarrow> int \<Rightarrow> exn + descriptor option" where
  "duration_filter loads now ev m start_dt end_dt =
     (let duration = total_seconds (end_dt - start_dt)
      in if duration > 1800 then Inr None
         else liveness_filter loads now ev m start_dt end_dt)"

text \<open>The body of \<open>for ev in events\<close>: \<open>Inr None\<close> goes on to the next hit.\<close>

definition scan_event ::
  "(string \<Rightarrow> int option) \<Rightarrow> (string \<Rightarrow> json option) \<Rightarrow> int \<Rightarrow> json
     \<Rightarrow> exn + descriptor option" where
  "scan_event fromiso loads now ev =
     andthen (event_times fromiso ev) (\<lambda>r.
       case r of
         None \<Rightarrow> Inr None
       | Some (m, start_dt, end_dt) \<Rightarrow> duration_filter loads now ev m start_dt end_dt)"

fun scan_events ::
  "(string \<Rightarrow> int option) \<Rightarrow> (string \<Rightarrow> json option) \<Rightarrow> int \<Rightarrow> json list
     \<Rightarrow> exn + descriptor option" where
  "scan_events fromiso loads now [] = Inr None"
| "scan_events fromiso loads now (ev # evs) =
     (case scan_event fromiso loads now ev of
        Inl e \<Rightarrow> Inl e
      | Inr (Some d) \<Rightarrow> Inr (Some d)
      | Inr None \<Rightarrow> scan_events fromiso loads now evs)"

text \<open>
  The body of \<open>for q in queries\<close> once the request has been answered: \<open>Inr None\<close> is every
  way of going on to the next query (connection error, status, undecodable body, no
  events, no hit accepted).
\<close>

definition scan_response ::
  "(string \<Rightarrow> int option) \<Rightarrow> (string \<Rightarrow> json option) \<Rightarrow> int \<Rightarrow> response
     \<Rightarrow> exn + descriptor option" where
  "scan_response fromiso loads now resp =
     (case resp of
        NetworkFailure \<Rightarrow> Inr None
      | Http status body \<Rightarrow>
          if status \<noteq> 200 then Inr None
          else case body of
            None \<Rightarrow> Inr None
          | Some data \<Rightarrow>
              andthen (py_get data ''events'' (JArr [])) (\<lambda>events.
                if \<not> truthy events then Inr None
                else andthen (py_iter events) (scan_events fromiso loads now)))"

text \<open>
  The sweep over the queries. \<open>net k\<close> is the answer to the \<open>k\<close>-th request of the call;
  the first component of the result lists the URLs requested, in order.
\<close>

fun sweep ::
  "(string \<Rightarrow> int option) \<Rightarrow> (string \<Rightarrow> json option) \<Rightarrow> int \<Rightarrow> (nat \<Rightarrow> response) \<Rightarrow> nat
     \<Rightarrow> string list \<Rightarrow> string list \<times> (exn + descriptor option)" where
  "sweep fromiso loads now net k [] = ([], Inr None)"
| "sweep fromiso loads now net k (q # qs) =
     (let url = API_URL @ ''?q='' @ quote_plus q
      in case scan_response fromiso loads now (net k) of
           Inr None \<Rightarrow>
             (case sweep fromiso loads now net (Suc k) qs of (urls, r) \<Rightarrow> (url # urls, r))
         | r \<Rightarrow> ([url], r))"

definition find_active_window ::
  "(string \<Rightarrow> int option) \<Rightarrow> (string \<Rightarrow> json option) \<Rightarrow> (nat \<Rightarrow> response) \<Rightarrow> datetime
     \<Rightarrow> string list \<times> (exn + descriptor option)" where
  "find_active_window fromiso loads net now_et =
     (case get_window_boundaries now_et of
        (start, end') \<Rightarrow>
          sweep fromiso loads (instant now_et) net 0 (title_variants start @ title_variants end'))"

section \<open>The watcher (market\_watcher.py)\<close>

text \<open>
  The state of a \<open>MarketWatcher\<close>. \<open>ids\<close> and \<open>prices\<close> are dictionaries with the two
  keys \<open>"YES"\<close> and \<open>"NO"\<close>, held as two fields each. \<open>stdout\<close> lists the status lines
  that \<open>refresh_display\<close> has written, oldest first, each as the pair of prices it shows
  (the line also shows the time remaining, read from the clock).
\<close>

record watcher =
  ids_YES :: json
  ids_NO :: json
  w_end_time :: int
  w_title :: json
  w_condition_id :: json
  prices_YES :: real
  prices_NO :: real
  stdout :: "(real \<times> real) list"

definition MarketWatcher :: "descriptor \<Rightarrow> watcher" where
  "MarketWatcher market_data =
     \<lparr> ids_YES = yes_id market_data, ids_NO = no_id market_data,
       w_end_time = end_time market_data, w_title = title market_data,
       w_condition_id = condition_id market_data,
       prices_YES = 0, prices_NO = 0, stdout = [] \<rparr>"

text \<open>\<open>get_time_remaining\<close> at clock reading \<open>now\<close>, in microseconds.\<close>

definition get_time_remaining :: "watcher \<Rightarrow> int \<Rightarrow> int" where
  "get_time_remaining w now = w_end_time w - now"

definition refresh_display :: "watcher \<Rightarrow> watcher" where
  "refresh_display w = w\<lparr> stdout := stdout w @ [(prices_YES w, prices_NO w)] \<rparr>"

definition update_price :: "watcher \<Rightarrow> json \<Rightarrow> real \<Rightarrow> watcher" where
  "update_price w asset_id price =
     (if price = 0 then w
      else refresh_display
             (if asset_id = ids_YES w then w\<lparr> prices_YES := price \<rparr>
              else if asset_id = ids_NO w then w\<lparr> prices_NO := price \<rparr>
              else w))"

text \<open>
  The loop of the \<open>price_change\<close> branch. The watcher is mutated in place, so the result
  is the watcher as the loop leaves it together with the exception that ended it, if any.
\<close>

fun price_changes ::
  "(string \<Rightarrow> real option) \<Rightarrow> watcher \<Rightarrow> json list \<Rightarrow> watcher \<times> exn option" where
  "price_changes str_float w [] = (w, None)"
| "price_changes str_float w (c # cs) =
     (case py_key c ''asset_id'' of
        Inl e \<Rightarrow> (w, Some e)
      | Inr aid \<Rightarrow>
          (case andthen (andthen (py_get c ''best_ask'' JNull) (\<lambda>x. py_or x (Inr (JNum 0))))
                  (py_float str_float) of
             Inl e \<Rightarrow> (w, Some e)
           | Inr price \<Rightarrow> price_changes str_float (update_price w aid price) cs))"

definition process_item ::
  "(string \<Rightarrow> real option) \<Rightarrow> json \<Rightarrow> watcher \<Rightarrow> watcher \<times> exn option" where
  "process_item str_float item w =
     (case py_get item ''event_type'' JNull of
        Inl e \<Rightarrow> (w, Some e)
      | Inr event_type \<Rightarrow>
          if event_type = JStr ''level1'' then
            (case andthen (py_get item ''asset_id'' JNull) (\<lambda>aid.
                  andthen (py_get item ''best_ask'' JNull) (\<lambda>ask.
                  if truthy aid \<and> truthy ask
                  then andthen (py_float str_float ask) (\<lambda>price.
                         Inr (update_price w aid price))
                  else Inr w)) of
               Inl e \<Rightarrow> (w, Some e)
             | Inr w' \<Rightarrow> (w', None))
          else if event_type = JStr ''price_change'' then
            (case andthen (py_get item ''price_changes'' (JArr [])) py_iter of
               Inl e \<Rightarrow> (w, Some e)
             | Inr cs \<Rightarrow> price_changes str_float w cs)
          else if event_type = JStr ''book'' then
            (case andthen (py_get item ''asks'' (JArr [])) (\<lambda>asks.
                  if truthy asks
                  then andthen (py_key item ''asset_id'') (\<lambda>aid.
                       andthen (py_item asks 0) (\<lambda>first.
                       andthen (py_key first ''price'') (\<lambda>p.
                       andthen (py_float str_float p) (\<lambda>price.
                         Inr (update_price w aid price)))))
                  else Inr w) of
               Inl e \<Rightarrow> (w, Some e)
             | Inr w' \<Rightarrow> (w', None))
          else (w, None))"

text \<open>\<open>for item in data: process_item(item, watcher)\<close>.\<close>

fun process_items ::
  "(string \<Rightarrow> real option) \<Rightarrow> watcher \<Rightarrow> json list \<Rightarrow> watcher \<times> exn option" where
  "process_items str_float w [] = (w, None)"
| "process_items str_float w (item # items) =
     (case process_item str_float item w of
        (w', Some e) \<Rightarrow> (w', Some e)
      | (w', None) \<Rightarrow> process_items str_float w' items)"

text \<open>
  What one turn of the receive loop meets at \<open>ws.recv()\<close>: a text, given by what
  \<open>json.loads\<close> makes of it (\<open>None\<close> where it raises); the 10 second timeout, with whether
  the \<open>ws.ping()\<close> that follows succeeds; or another exception of \<open>recv\<close>, such as a closed
  connection.
\<close>

datatype recv = Message "json option" | Timeout bool | RecvError

text \<open>
  How the receive loop ends: \<open>Expired\<close> is the \<open>break\<close> of the expiry check,
  \<open>StreamError\<close> the \<open>break\<close> of \<open>except Exception\<close>, \<open>ConnectionError\<close> an exception that
  leaves the loop for the outer handler. \<open>Pending\<close>: the script of inputs is used up and the
  loop is still running.
\<close>

datatype outcome = Expired | StreamError | ConnectionError | Pending

text \<open>
  The inner \<open>while True\<close> of \<open>main_loop\<close>, run on a script that gives for each turn the
  clock reading of the expiry check and what \<open>recv\<close> meets.
\<close>

fun receive_loop ::
  "(string \<Rightarrow> real option) \<Rightarrow> watcher \<Rightarrow> (int \<times> recv) list \<Rightarrow> watcher \<times> outcome" where
  "receive_loop str_float w [] = (w, Pending)"
| "receive_loop str_float w ((now, r) # script) =
     (if get_time_remaining w now \<le> 0 then (w, Expired)
      else case r of
        RecvError \<Rightarrow> (w, StreamError)
      | Timeout ping_ok \<Rightarrow>
          if ping_ok then receive_loop str_float w script else (w, ConnectionError)
      | Message None \<Rightarrow> (w, StreamError)
      | Message (Some data) \<Rightarrow>
          (case data of
             JArr items \<Rightarrow>
               (case process_items str_float w items of
                  (w', Some e) \<Rightarrow> (w', StreamError)
                | (w', None) \<Rightarrow> receive_loop str_float w' script)
           | JObj kvs \<Rightarrow>
               (case process_item str_float data w of
                  (w', Some e) \<Rightarrow> (w', StreamError)
                | (w', None) \<Rightarrow> receive_loop str_float w' script)
           | _ \<Rightarrow> receive_loop str_float w script))"

section \<open>Readers for the library calls\<close>

text \<open>
  Concrete readers for the three library calls that the functions above take as
  parameters. Each reads the plain form that the exchange sends and agrees with the
  library call on the strings it accepts; the general theorems hold for every reader.
\<close>

definition digit_val :: "char \<Rightarrow> nat option" where
  "digit_val c =
     (if 48 \<le> (of_char c :: nat) \<and> (of_char c :: nat) \<le> 57
      then Some ((of_char c :: nat) - 48) else None)"

fun digits_val :: "nat \<Rightarrow> string \<Rightarrow> nat option" where
  "digits_val acc [] = Some acc"
| "digits_val acc (c # cs) =
     (case digit_val c of None \<Rightarrow> None | Some d \<Rightarrow> digits_val (10 * acc + d) cs)"

text \<open>An unsigned decimal number, at least one digit long.\<close>

definition number :: "string \<Rightarrow> int option" where
  "number s = (if s = [] then None else map_option int (digits_val 0 s))"

text \<open>\<open>float\<close> on an unsigned decimal numeral such as \<open>0.62\<close>, \<open>1\<close> or \<open>.5\<close>.\<close>

definition decimal_float :: "string \<Rightarrow> real option" where
  "decimal_float s =
     (let whole = takeWhile (\<lambda>c. c \<noteq> CHR ''.'') s;
          frac = drop 1 (dropWhile (\<lambda>c. c \<noteq> CHR ''.'') s)
      in if whole = [] \<and> frac = [] then None
         else case (digits_val 0 whole, digits_val 0 frac) of
           (Some a, Some b) \<Rightarrow> Some (real a + real b / 10 ^ length frac)
         | _ \<Rightarrow> None)"

text \<open>The day number of a calendar date, the inverse of \<open>civil_of_ordinal\<close>.\<close>

definition ordinal_of_civil :: "int \<Rightarrow> int \<Rightarrow> int \<Rightarrow> int" where
  "ordinal_of_civil y m d =
     (let y' = (if m \<le> 2 then y - 1 else y);
          era = y' div 400;
          yoe = y' - era * 400;
          mp = (if m > 2 then m - 3 else m + 9);
          doy = (153 * mp + 2) div 5 + d - 1;
          doe = yoe * 365 + yoe div 4 - yoe div 100 + doy
      in era * 146097 + doe - 305)"

definition days_in_month :: "int \<Rightarrow> int \<Rightarrow> int" where
  "days_in_month y m =
     (if m = 2
      then (if y mod 400 = 0 then 29 else if y mod 100 = 0 then 28
            else if y mod 4 = 0 then 29 else 28)
      else if m \<in> {4, 6, 9, 11} then 30 else 31)"

text \<open>
  \<open>datetime.fromisoformat\<close> on \<open>YYYY-MM-DDTHH:MM:SS+00:00\<close>: the instant, counted like
  \<open>instant\<close>.
\<close>

definition iso_utc :: "string \<Rightarrow> int option" where
  "iso_utc s =
     (if length s = 25 \<and> s ! 4 = CHR ''-'' \<and> s ! 7 = CHR ''-'' \<and> s ! 10 = CHR ''T''
         \<and> s ! 13 = CHR '':'' \<and> s ! 16 = CHR '':'' \<and> drop 19 s = ''+00:00''
      then case (number (take 4 s), number (take 2 (drop 5 s)), number (take 2 (drop 8 s)),
                 number (take 2 (drop 11 s)), number (take 2 (drop 14 s)),
                 number (take 2 (drop 17 s))) of
        (Some y, Some m, Some d, Some h, Some mi, Some sec) \<Rightarrow>
          if 1 \<le> y \<and> 1 \<le> m \<and> m \<le> 12 \<and> 1 \<le> d \<and> d \<le> days_in_month y m
             \<and> h < 24 \<and> mi < 60 \<and> sec < 60
          then Some ((ordinal_of_civil y m d * 86400 + h * 3600 + mi * 60 + sec) * 1000000)
          else None
      | _ \<Rightarrow> None
      else None)"

text \<open>Splitting at a separator, as \<open>str.split(sep)\<close>.\<close>

fun split_on :: "char \<Rightarrow> string \<Rightarrow> string list" where
  "split_on sep [] = [[]]"
| "split_on sep (c # cs) =
     (case split_on sep cs of
        [] \<Rightarrow> [[c]]
      | w # ws \<Rightarrow> if c = sep then [] # w # ws else (c # w) # ws)"

text \<open>
  \<open>json.loads\<close> on an array of string literals made of letters and digits, written without
  spaces: \<open>["123","456"]\<close>.
\<close>

definition alnum :: "char \<Rightarrow> bool" where
  "alnum c \<longleftrightarrow>
     (let n = (of_char c :: nat)
      in (48 \<le> n \<and> n \<le> 57) \<or> (65 \<le> n \<and> n \<le> 90) \<or> (97 \<le> n \<and> n \<le> 122))"

definition string_literal :: "string \<Rightarrow> json option" where
  "string_literal s =
     (if 2 \<le> length s \<and> hd s = CHR 0x22 \<and> last s = CHR 0x22 \<and> list_all alnum (butlast (tl s))
      then Some (JStr (butlast (tl s))) else None)"

definition loads_strings :: "string \<Rightarrow> json option" where
  "loads_strings s =
     (if 2 \<le> length s \<and> hd s = CHR ''['' \<and> last s = CHR '']''
      then (if length s = 2 then Some (JArr [])
            else let items = map string_literal (split_on CHR '','' (butlast (tl s)))
                 in if list_all (\<lambda>x. x \<noteq> None) items then Some (JArr (map the items))
                    else None)
      else None)"

section \<open>Sample inputs\<close>

text \<open>
  The clock reading 2024-11-22 22:52:41.25 in New York (UTC-5), that is
  2024-11-23 03:52:41.25 UTC; its window runs from 22:45 to 23:00.
\<close>

definition now0 :: datetime where
  "now0 = \<lparr> ordinal = 739212, hour = 22, minute = 52, second = 41, microsecond = 250000,
           utcoffset = - 18000 \<rparr>"

text \<open>A search hit: one event holding one market with the given fields.\<close>

definition hit :: "(string \<times> json) list \<Rightarrow> json" where
  "hit market =
     JObj [(''title'', JStr ''Bitcoin Up or Down - November 22, 10:45PM ET''),
           (''markets'', JArr [JObj market])]"

definition body :: "json list \<Rightarrow> json" where
  "body events = JObj [(''events'', JArr events)]"

definition tokens_111_222 :: string where
  \<open>tokens_111_222 = ''["111","222"]''\<close>

definition tokens_111_111 :: string where
  \<open>tokens_111_111 = ''["111","111"]''\<close>

text \<open>The market of the window of \<open>now0\<close>, 900 seconds long.\<close>

definition live_market :: "string \<Rightarrow> (string \<times> json) list" where
  "live_market tokens =
     [(''eventStartTime'', JStr ''2024-11-23T03:45:00Z''),
      (''endDate'', JStr ''2024-11-23T04:00:00Z''),
      (''clobTokenIds'', JStr tokens),
      (''conditionId'', JStr ''0xabc'')]"

text \<open>The same market as the exchange would send it without its token ids.\<close>

definition market_without_tokens :: "(string \<times> json) list" where
  "market_without_tokens =
     [(''eventStartTime'', JStr ''2024-11-23T03:45:00Z''),
      (''endDate'', JStr ''2024-11-23T04:00:00Z''),
      (''conditionId'', JStr ''0xabc'')]"

text \<open>Markets that start at 03:30 UTC and last 1800 and 1801 seconds.\<close>

definition market_1800 :: "(string \<times> json) list" where
  "market_1800 =
     [(''eventStartTime'', JStr ''2024-11-23T03:30:00Z''),
      (''endDate'', JStr ''2024-11-23T04:00:00Z''),
      (''clobTokenIds'', JStr tokens_111_222)]"

definition market_1801 :: "(string \<times> json) list" where
  "market_1801 =
     [(''eventStartTime'', JStr ''2024-11-23T03:30:00Z''),
      (''endDate'', JStr ''2024-11-23T04:00:01Z''),
      (''clobTokenIds'', JStr tokens_111_222)]"

text \<open>A watcher on the tokens \<open>111\<close> and \<open>222\<close> whose market ends at instant 1000.\<close>

definition watcher0 :: watcher where
  "watcher0 =
     MarketWatcher \<lparr> title = JStr ''BTC 15m'', yes_id = JStr ''111'', no_id = JStr ''222'',
                     start_time = 0, end_time = 1000, condition_id = JStr ''0xabc'',
                     question_id = JNull \<rparr>"

text \<open>The same market with a start time that is no timestamp.\<close>

definition market_bad_time :: "(string \<times> json) list" where
  "market_bad_time =
     [(''eventStartTime'', JStr ''soon''),
      (''endDate'', JStr ''2024-11-23T04:00:00Z''),
      (''clobTokenIds'', JStr tokens_111_222),
      (''conditionId'', JStr ''0xabc'')]"

text \<open>The descriptor of \<open>live_market\<close> with the given token ids.\<close>

definition found :: "json \<Rightarrow> json \<Rightarrow> descriptor" where
  "found y n =
     \<lparr> title = JStr ''Bitcoin Up or Down - November 22, 10:45PM ET'', yes_id = y, no_id = n,
       start_time = 63868016700000000, end_time = 63868017600000000,
       condition_id = JStr ''0xabc'', question_id = JNull \<rparr>"

text \<open>The first request of the sweep at \<open>now0\<close>, and all six.\<close>

definition first_url :: string where
  "first_url =
     ''https://gamma-api.polymarket.com/public-search?q=Bitcoin+Up+or+Down+November+22+10%3A45PM+ET''"

definition all_urls :: "string list" where
  "all_urls =
     [''https://gamma-api.polymarket.com/public-search?q=Bitcoin+Up+or+Down+November+22+10%3A45PM+ET'',
      ''https://gamma-api.polymarket.com/public-search?q=Bitcoin+Up+or+Down+-+November+22%2C+10%3A45PM+ET'',
      ''https://gamma-api.polymarket.com/public-search?q=Bitcoin+Up+or+Down+-+November+22+10%3A45PM+ET'',
      ''https://gamma-api.polymarket.com/public-search?q=Bitcoin+Up+or+Down+November+22+11%3A00PM+ET'',
      ''https://gamma-api.polymarket.com/public-search?q=Bitcoin+Up+or+Down+-+November+22%2C+11%3A00PM+ET'',
      ''https://gamma-api.polymarket.com/public-search?q=Bitcoin+Up+or+Down+-+November+22+11%3A00PM+ET'']"

text \<open>A network that answers every request alike.\<close>

definition always :: "response \<Rightarrow> nat \<Rightarrow> response" where
  "always r k = r"

text \<open>Stream messages: a best-ask update, and a book whose asks fall in price.\<close>

definition level1_msg :: json where
  "level1_msg =
     JObj [(''event_type'', JStr ''level1''), (''asset_id'', JStr ''111''),
           (''best_ask'', JStr ''0.62'')]"

definition falling_asks :: "json list" where
  "falling_asks = [JObj [(''price'', JStr ''0.9'')], JObj [(''price'', JStr ''0.1'')]]"

definition book_msg :: json where
  "book_msg =
     JObj [(''event_type'', JStr ''book''), (''asset_id'', JStr ''111''),
           (''asks'', JArr falling_asks)]"

section \<open>Notions of the specification\<close>

text \<open>
  The lowest-priced entry of an asks list, in the words of the specification: the least of
  the prices of its entries.
\<close>

definition ask_price :: "(string \<Rightarrow> real option) \<Rightarrow> json \<Rightarrow> real option" where
  "ask_price str_float a =
     (case andthen (py_key a ''price'') (py_float str_float) of
        Inl e \<Rightarrow> None
      | Inr p \<Rightarrow> Some p)"

definition lowest_ask :: "(string \<Rightarrow> real option) \<Rightarrow> json list \<Rightarrow> real option" where
  "lowest_ask str_float asks =
     (case those (map (ask_price str_float) asks) of
        Some (p # ps) \<Rightarrow> Some (fold min ps p)
      | _ \<Rightarrow> None)"

text \<open>
  A query that returns an empty result set: status 200 and a body whose \<open>events\<close> is the
  empty list, or is absent.
\<close>

fun empty_result :: "response \<Rightarrow> bool" where
  "empty_result (Http status (Some (JObj kvs))) =
     (status = 200 \<and> (case map_of kvs ''events'' of None \<Rightarrow> True | Some v \<Rightarrow> v = JArr []))"
| "empty_result _ = False"

text \<open>
  A decoded payload that matches no known shape: a record whose \<open>event_type\<close> is none of
  the three, a list of such records, or a value that is neither list nor record.
\<close>

fun unknown_event :: "json \<Rightarrow> bool" where
  "unknown_event (JObj kvs) =
     (case map_of kvs ''event_type'' of
        None \<Rightarrow> True
      | Some t \<Rightarrow> t \<noteq> JStr ''level1'' \<and> t \<noteq> JStr ''price_change'' \<and> t \<noteq> JStr ''book'')"
| "unknown_event _ = False"

fun no_known_shape :: "json \<Rightarrow> bool" where
  "no_known_shape (JArr items) = list_all unknown_event items"
| "no_known_shape (JObj kvs) = unknown_event (JObj kvs)"
| "no_known_shape _ = True"

section \<open>Window boundaries\<close>

lemma wall_us_dt_plus: "wall_us (dt_plus t d) = wall_us t + d"
proof -
  define total where "total = wall_us t + d"
  define rest where "rest = total mod 86400000000"
  define secs where "secs = rest div 1000000"
  have "(secs mod 3600) div 60 * 60 + (secs mod 3600) mod 60 = secs mod 3600"
    by simp
  moreover have "(secs mod 3600) mod 60 = secs mod 60"
    by (simp add: mod_mod_cancel)
  moreover have "secs div 3600 * 3600 + secs mod 3600 = secs"
    by simp
  ultimately have a:
    "secs div 3600 * 3600 + (secs mod 3600) div 60 * 60 + secs mod 60 = secs"
    by linarith
  have b: "secs * 1000000 + rest mod 1000000 = rest"
    unfolding secs_def by simp
  have c: "total div 86400000000 * 86400000000 + rest = total"
    unfolding rest_def by simp
  have "wall_us (dt_plus t d) =
      (total div 86400000000 * 86400 + secs div 3600 * 3600 + (secs mod 3600) div 60 * 60
        + secs mod 60) * 1000000 + rest mod 1000000"
    by (simp add: dt_plus_def wall_us_def Let_def total_def rest_def secs_def)
  also have "\<dots> = total div 86400000000 * 86400000000
      + (secs div 3600 * 3600 + (secs mod 3600) div 60 * 60 + secs mod 60) * 1000000
      + rest mod 1000000"
    by (simp add: algebra_simps)
  also have "\<dots> = total div 86400000000 * 86400000000 + (secs * 1000000 + rest mod 1000000)"
    using a by simp
  also have "\<dots> = total"
    using b c by simp
  finally show ?thesis by (simp add: total_def)
qed

lemma minute_floor: "(m::int) div 15 * 15 = m - m mod 15"
  by (simp add: minus_mod_eq_div_mult)

lemma wall_us_start:
  "wall_us (fst (get_window_boundaries t)) =
     wall_us t - ((minute t mod 15) * 60 + second t) * 1000000 - microsecond t"
proof -
  have "wall_us (fst (get_window_boundaries t)) =
      (ordinal t * 86400 + hour t * 3600 + (minute t div 15 * 15) * 60) * 1000000"
    by (simp add: get_window_boundaries_def Let_def wall_us_def)
  also have "\<dots> =
      (ordinal t * 86400 + hour t * 3600 + (minute t - minute t mod 15) * 60) * 1000000"
    by (simp only: minute_floor)
  also have "\<dots> = wall_us t - ((minute t mod 15) * 60 + second t) * 1000000 - microsecond t"
    by (simp add: wall_us_def algebra_simps)
  finally show ?thesis .
qed

text \<open>
  C8. For every timestamp \<open>t\<close>, the window computed from \<open>t\<close> starts at a minute of the hour
  that is a multiple of 15, with seconds and microseconds zero; its end is its start plus
  15 minutes (as the sum of datetime and timedelta, and as the distance of the two
  instants); and \<open>t\<close> lies in the half-open interval from start to end.
\<close>

theorem get_window_boundaries_window:
  assumes "valid_datetime t"
  shows "minute (fst (get_window_boundaries t)) mod 15 = 0
       \<and> second (fst (get_window_boundaries t)) = 0
       \<and> microsecond (fst (get_window_boundaries t)) = 0
       \<and> snd (get_window_boundaries t)
            = dt_plus (fst (get_window_boundaries t)) (timedelta_minutes 15)
       \<and> instant (snd (get_window_boundaries t))
            = instant (fst (get_window_boundaries t)) + 15 * 60 * 1000000
       \<and> dt_le (fst (get_window_boundaries t)) t
       \<and> dt_less t (snd (get_window_boundaries t))"
proof -
  let ?s = "fst (get_window_boundaries t)" and ?e = "snd (get_window_boundaries t)"
  have f: "minute ?s mod 15 = 0" "second ?s = 0" "microsecond ?s = 0"
    by (simp_all add: get_window_boundaries_def Let_def)
  have e: "?e = dt_plus ?s (timedelta_minutes 15)"
    by (simp add: get_window_boundaries_def Let_def)
  have off: "utcoffset ?s = utcoffset t" "utcoffset ?e = utcoffset t"
    by (simp_all add: get_window_boundaries_def Let_def dt_plus_def)
  have we: "wall_us ?e = wall_us ?s + 900000000"
    by (simp add: e wall_us_dt_plus timedelta_minutes_def)
  have m: "0 \<le> minute t mod 15" "minute t mod 15 < 15"
    by simp_all
  from assms have b:
    "0 \<le> second t" "second t < 60" "0 \<le> microsecond t" "microsecond t < 1000000"
    by (simp_all add: valid_datetime_def)
  have lo: "wall_us ?s \<le> wall_us t"
    using m b by (simp add: wall_us_start)
  define x where "x = minute t mod 15 * 60 + second t"
  have "x \<le> 899"
    unfolding x_def using m b by linarith
  then have "x * 1000000 + microsecond t < 900000000"
    using b by linarith
  then have "(minute t mod 15 * 60 + second t) * 1000000 + microsecond t < 900000000"
    by (simp only: x_def)
  then have hi: "wall_us t < wall_us ?e"
    by (simp add: we wall_us_start)
  show ?thesis
    using f e off we lo hi by (simp add: dt_le_def dt_less_def instant_def)
qed

theorem get_window_boundaries_window_witness:
  "valid_datetime now0
   \<and> get_window_boundaries now0 =
       (\<lparr> ordinal = 739212, hour = 22, minute = 45, second = 0, microsecond = 0,
          utcoffset = - 18000 \<rparr>,
        \<lparr> ordinal = 739212, hour = 23, minute = 0, second = 0, microsecond = 0,
          utcoffset = - 18000 \<rparr>)
   \<and> dt_le (fst (get_window_boundaries now0)) now0
   \<and> dt_less now0 (snd (get_window_boundaries now0))"
proof -
  have v: "valid_datetime now0"
    by (simp add: valid_datetime_def now0_def)
  have w: "get_window_boundaries now0 =
       (\<lparr> ordinal = 739212, hour = 22, minute = 45, second = 0, microsecond = 0,
          utcoffset = - 18000 \<rparr>,
        \<lparr> ordinal = 739212, hour = 23, minute = 0, second = 0, microsecond = 0,
          utcoffset = - 18000 \<rparr>)"
    by code_simp
  show ?thesis
    using v w get_window_boundaries_window [OF v] by blast
qed

section \<open>The two filters of the discovery loop\<close>

lemma andthen_Inl [simp]: "andthen (Inl e) f = Inl e"
  by (simp add: andthen_def)

lemma andthen_Inr [simp]: "andthen (Inr x) f = f x"
  by (simp add: andthen_def)

lemma scan_event_hit:
  "event_times fromiso ev = Inr (Some (m, s, e)) \<Longrightarrow>
     scan_event fromiso loads now ev = duration_filter loads now ev m s e"
  by (simp add: scan_event_def)

lemma accepted_not_skipped: "andthen r (\<lambda>d. Inr (Some d)) \<noteq> Inr None"
  by (cases r) simp_all

lemma event_times_1800:
  "event_times iso_utc (hit market_1800)
     = Inr (Some (JObj market_1800, 63868015800000000, 63868017600000000))"
  by code_simp

lemma event_times_1801:
  "event_times iso_utc (hit market_1801)
     = Inr (Some (JObj market_1801, 63868015800000000, 63868017601000000))"
  by code_simp

lemma instant_now0: "instant now0 = 63868017161250000"
  by code_simp

text \<open>
  C5. For a hit whose two timestamps parse, the duration filter rejects it (the loop goes
  on to the next hit, whatever the time is) when \<open>end_time - start_time\<close> is 1801 seconds,
  and hands it to the liveness filter when it is 1800 seconds: the hit is rejected exactly
  when the duration is greater than 1800 seconds.
\<close>

theorem duration_filter_boundary:
  assumes "event_times fromiso ev = Inr (Some (m, start_dt, end_dt))"
  shows "(total_seconds (end_dt - start_dt) = 1801 \<longrightarrow>
            scan_event fromiso loads now ev = Inr None)
       \<and> (total_seconds (end_dt - start_dt) = 1800 \<longrightarrow>
            scan_event fromiso loads now ev = liveness_filter loads now ev m start_dt end_dt)
       \<and> scan_event fromiso loads now ev =
            (if total_seconds (end_dt - start_dt) > 1800 then Inr None
             else liveness_filter loads now ev m start_dt end_dt)"
  using assms by (simp add: scan_event_hit duration_filter_def Let_def)

theorem duration_filter_boundary_witness:
  "event_times iso_utc (hit market_1801)
     = Inr (Some (JObj market_1801, 63868015800000000, 63868017601000000))
   \<and> total_seconds (63868017601000000 - 63868015800000000) = 1801
   \<and> scan_event iso_utc loads_strings (instant now0) (hit market_1801) = Inr None
   \<and> event_times iso_utc (hit market_1800)
     = Inr (Some (JObj market_1800, 63868015800000000, 63868017600000000))
   \<and> total_seconds (63868017600000000 - 63868015800000000) = 1800
   \<and> scan_event iso_utc loads_strings (instant now0) (hit market_1800)
     = liveness_filter loads_strings (instant now0) (hit market_1800) (JObj market_1800)
         63868015800000000 63868017600000000"
  using duration_filter_boundary [OF event_times_1801, of loads_strings "instant now0"]
    duration_filter_boundary [OF event_times_1800, of loads_strings "instant now0"]
    event_times_1800 event_times_1801
  by (simp add: total_seconds_def)

text \<open>
  C6. For a hit that has passed the duration filter and an observation time \<open>now\<close>, the
  liveness filter accepts (the descriptor is built and returned, or building it raises)
  exactly when \<open>start_time \<le> now < end_time\<close>; \<open>now = end_time\<close> is rejected, and
  \<open>now = start_time\<close> is accepted (for a hit that lasts longer than no time).
\<close>

theorem liveness_filter_window:
  assumes "event_times fromiso ev = Inr (Some (m, start_dt, end_dt))"
    and "total_seconds (end_dt - start_dt) \<le> 1800"
  shows "scan_event fromiso loads now ev =
           (if start_dt \<le> now \<and> now < end_dt
            then andthen (make_descriptor loads ev m start_dt end_dt) (\<lambda>d. Inr (Some d))
            else Inr None)
       \<and> (scan_event fromiso loads now ev \<noteq> Inr None) = (start_dt \<le> now \<and> now < end_dt)
       \<and> scan_event fromiso loads end_dt ev = Inr None
       \<and> (start_dt < end_dt \<longrightarrow> scan_event fromiso loads start_dt ev \<noteq> Inr None)"
  using assms
  by (simp add: scan_event_hit duration_filter_def liveness_filter_def Let_def
      accepted_not_skipped)

theorem liveness_filter_window_witness:
  "event_times iso_utc (hit market_1800)
     = Inr (Some (JObj market_1800, 63868015800000000, 63868017600000000))
   \<and> total_seconds (63868017600000000 - 63868015800000000) \<le> 1800
   \<and> (63868015800000000 :: int) \<le> instant now0 \<and> instant now0 < 63868017600000000
   \<and> scan_event iso_utc loads_strings (instant now0) (hit market_1800) \<noteq> Inr None
   \<and> scan_event iso_utc loads_strings 63868017600000000 (hit market_1800) = Inr None
   \<and> scan_event iso_utc loads_strings 63868015800000000 (hit market_1800) \<noteq> Inr None"
proof -
  have d: "total_seconds (63868017600000000 - 63868015800000000) \<le> 1800"
    by (simp add: total_seconds_def)
  show ?thesis
    using liveness_filter_window [OF event_times_1800 d, of loads_strings "instant now0"]
      event_times_1800 d instant_now0
    by (simp add: accepted_not_skipped)
qed

section \<open>Price updates\<close>

text \<open>
  C7. For every watcher and asset id, an update with price \<open>0.0\<close> leaves the watcher as it
  is, both prices included, and a later update with a nonzero price is applied as if the
  zero update had not happened: for the YES token it sets the YES price, for the NO token
  the NO price, and leaves the other price alone.
\<close>

theorem zero_price_discard:
  "update_price w asset_id 0 = w
   \<and> update_price (update_price w asset_id 0) asset_id' price = update_price w asset_id' price
   \<and> (price \<noteq> 0 \<and> asset_id' = ids_YES w \<longrightarrow>
        prices_YES (update_price (update_price w asset_id 0) asset_id' price) = price
        \<and> prices_NO (update_price (update_price w asset_id 0) asset_id' price) = prices_NO w)
   \<and> (price \<noteq> 0 \<and> asset_id' \<noteq> ids_YES w \<and> asset_id' = ids_NO w \<longrightarrow>
        prices_NO (update_price (update_price w asset_id 0) asset_id' price) = price
        \<and> prices_YES (update_price (update_price w asset_id 0) asset_id' price) = prices_YES w)"
  by (simp add: update_price_def refresh_display_def)

theorem zero_price_discard_witness:
  "update_price watcher0 (JStr ''111'') 0 = watcher0
   \<and> prices_YES (update_price (update_price watcher0 (JStr ''111'') 0) (JStr ''111'') (62 / 100))
       = 62 / 100
   \<and> prices_NO (update_price (update_price watcher0 (JStr ''111'') 0) (JStr ''222'') (41 / 100))
       = 41 / 100"
proof -
  have y: "(62 / 100 :: real) \<noteq> 0 \<and> JStr ''111'' = ids_YES watcher0"
    by (simp add: watcher0_def MarketWatcher_def)
  have n: "(41 / 100 :: real) \<noteq> 0 \<and> JStr ''222'' \<noteq> ids_YES watcher0
      \<and> JStr ''222'' = ids_NO watcher0"
    by (simp add: watcher0_def MarketWatcher_def)
  show ?thesis
    using y n zero_price_discard [of watcher0 "JStr ''111''" "JStr ''111''" "62 / 100"]
      zero_price_discard [of watcher0 "JStr ''111''" "JStr ''222''" "41 / 100"]
    by blast
qed



section \<open>Stream messages\<close>

lemma decimal_float_09: "decimal_float ''0.9'' = Some (9 / 10)"
  by (simp add: decimal_float_def digit_val_def)
lemma decimal_float_01: "decimal_float ''0.1'' = Some (1 / 10)"
  by (simp add: decimal_float_def digit_val_def)

text \<open>
  C3, as amended. For every \<open>book\<close> message with a non-empty asks list, the price fed into
  the price update for its asset id is the price of the first entry of the asks list.
\<close>

theorem book_feeds_first_ask:
  assumes "py_get item ''event_type'' JNull = Inr (JStr ''book'')"
    and "py_get item ''asks'' (JArr []) = Inr (JArr (first # rest))"
    and "py_key item ''asset_id'' = Inr aid"
    and "py_key first ''price'' = Inr p"
    and "py_float str_float p = Inr price"
  shows "process_item str_float item w = (update_price w aid price, None)"
  using assms by (simp add: process_item_def)

theorem book_feeds_first_ask_witness:
  "py_get book_msg ''event_type'' JNull = Inr (JStr ''book'')
   \<and> py_get book_msg ''asks'' (JArr [])
       = Inr (JArr [JObj [(''price'', JStr ''0.9'')], JObj [(''price'', JStr ''0.1'')]])
   \<and> py_key book_msg ''asset_id'' = Inr (JStr ''111'')
   \<and> py_key (JObj [(''price'', JStr ''0.9'')]) ''price'' = Inr (JStr ''0.9'')
   \<and> py_float decimal_float (JStr ''0.9'') = Inr (9 / 10)
   \<and> process_item decimal_float book_msg watcher0
       = (update_price watcher0 (JStr ''111'') (9 / 10), None)"
proof -
  have h: "py_get book_msg ''event_type'' JNull = Inr (JStr ''book'')"
    "py_get book_msg ''asks'' (JArr [])
       = Inr (JArr [JObj [(''price'', JStr ''0.9'')], JObj [(''price'', JStr ''0.1'')]])"
    "py_key book_msg ''asset_id'' = Inr (JStr ''111'')"
    "py_key (JObj [(''price'', JStr ''0.9'')]) ''price'' = Inr (JStr ''0.9'')"
    "py_float decimal_float (JStr ''0.9'') = Inr (9 / 10)"
    by (simp_all add: book_msg_def falling_asks_def decimal_float_09)
  show ?thesis
    using h book_feeds_first_ask [OF h] by simp
qed

text \<open>
  C3 as stated fails: on a book whose asks are priced 0.9 and 0.1, in this order, the
  price fed is 0.9, while the lowest-priced entry is the one at 0.1.
\<close>

theorem book_not_lowest_ask:
  "process_item decimal_float book_msg watcher0
     = (update_price watcher0 (JStr ''111'') (9 / 10), None)
   \<and> lowest_ask decimal_float falling_asks = Some (1 / 10)
   \<and> prices_YES (update_price watcher0 (JStr ''111'') (9 / 10)) = 9 / 10
   \<and> prices_YES (update_price watcher0 (JStr ''111'') (1 / 10)) = 1 / 10"
  by (simp add: process_item_def book_msg_def falling_asks_def decimal_float_09 decimal_float_01 lowest_ask_def
      ask_price_def update_price_def refresh_display_def watcher0_def MarketWatcher_def)

lemma unknown_event_skipped:
  "unknown_event item \<Longrightarrow> process_item str_float item w = (w, None)"
  by (cases item) (auto simp: process_item_def split: option.splits)

lemma unknown_events_skipped:
  "list_all unknown_event items \<Longrightarrow> process_items str_float w items = (w, None)"
  by (induction items) (simp_all add: unknown_event_skipped)

lemma level1_msg_alone:
  "receive_loop decimal_float watcher0 [(0, Message (Some level1_msg))]
     = (update_price watcher0 (JStr ''111'') (62 / 100), Pending)"
  by (simp add: level1_msg_def process_item_def decimal_float_def digit_val_def
      get_time_remaining_def watcher0_def MarketWatcher_def)

text \<open>
  C2, as amended. For every inbound stream message within a session that has not expired:
  a payload that decodes to a value of no known shape is skipped and the receive loop goes
  on to the next message, as it does after a timeout whose ping succeeds; a payload that
  fails to decode ends the loop as a stream error, as a failure of \<open>recv\<close> does; a failed
  ping leaves the loop for the connection error handler; and at expiry the loop ends
  before anything is received.
\<close>

theorem receive_loop_skips_unknown_shape:
  "(0 < get_time_remaining w now \<longrightarrow>
      (no_known_shape data \<longrightarrow>
         receive_loop str_float w ((now, Message (Some data)) # script)
           = receive_loop str_float w script)
      \<and> receive_loop str_float w ((now, Message None) # script) = (w, StreamError)
      \<and> receive_loop str_float w ((now, RecvError) # script) = (w, StreamError)
      \<and> receive_loop str_float w ((now, Timeout False) # script) = (w, ConnectionError)
      \<and> receive_loop str_float w ((now, Timeout True) # script)
           = receive_loop str_float w script)
   \<and> (get_time_remaining w now \<le> 0 \<longrightarrow>
        receive_loop str_float w ((now, r) # script) = (w, Expired))"
proof -
  have "receive_loop str_float w ((now, Message (Some data)) # script)
          = receive_loop str_float w script"
    if "0 < get_time_remaining w now" and "no_known_shape data"
    using that
    by (cases data) (simp_all add: unknown_events_skipped unknown_event_skipped)
  then show ?thesis by simp
qed

theorem receive_loop_skips_unknown_shape_witness:
  "0 < get_time_remaining watcher0 0
   \<and> no_known_shape (JObj [(''event_type'', JStr ''tick'')])
   \<and> receive_loop decimal_float watcher0
        [(0, Message (Some (JObj [(''event_type'', JStr ''tick'')]))),
         (0, Message (Some level1_msg))]
       = (update_price watcher0 (JStr ''111'') (62 / 100), Pending)
   \<and> receive_loop decimal_float watcher0 [(1000, Message (Some level1_msg))]
       = (watcher0, Expired)"
proof -
  have t: "0 < get_time_remaining watcher0 0" "get_time_remaining watcher0 1000 \<le> 0"
    by (simp_all add: get_time_remaining_def watcher0_def MarketWatcher_def)
  have u: "no_known_shape (JObj [(''event_type'', JStr ''tick'')])"
    by simp
  show ?thesis
    using t u level1_msg_alone
      receive_loop_skips_unknown_shape [of watcher0 0 "JObj [(''event_type'', JStr ''tick'')]"
        decimal_float "[(0, Message (Some level1_msg))]"]
      receive_loop_skips_unknown_shape [of watcher0 1000 _ decimal_float "[]"
        "Message (Some level1_msg)"]
    by simp
qed

text \<open>
  C2 as stated fails: after a payload that does not decode, the loop ends with a stream
  error and the best-ask update that follows is never applied.
\<close>

theorem garbled_payload_ends_session:
  "receive_loop decimal_float watcher0 [(0, Message None), (0, Message (Some level1_msg))]
     = (watcher0, StreamError)
   \<and> receive_loop decimal_float watcher0 [(0, Message (Some level1_msg))]
     = (update_price watcher0 (JStr ''111'') (62 / 100), Pending)
   \<and> prices_YES (update_price watcher0 (JStr ''111'') (62 / 100)) = 62 / 100
   \<and> prices_YES watcher0 = 0"
  using level1_msg_alone
  by (simp add: get_time_remaining_def watcher0_def MarketWatcher_def update_price_def
      refresh_display_def)

section \<open>The discovery sweep\<close>

lemma empty_result_skipped:
  "empty_result r \<Longrightarrow> scan_response fromiso loads now r = Inr None"
  by (cases r rule: empty_result.cases) (auto simp: scan_response_def split: option.splits)

lemma sweep_all_skipped:
  "(\<And>k. scan_response fromiso loads now (net k) = Inr None) \<Longrightarrow>
     sweep fromiso loads now net k qs
       = (map (\<lambda>q. API_URL @ ''?q='' @ quote_plus q) qs, Inr None)"
  by (induction qs arbitrary: k) (simp_all add: Let_def)

text \<open>
  C9. If every search query returns an empty result set, \<open>find_active_window\<close> returns
  \<open>None\<close>, and the requests it has made are exactly one for every title candidate of the
  current window followed by one for every title candidate of the next window, six in
  all.
\<close>

theorem sweep_exhaustion:
  assumes "\<forall>k. empty_result (net k)"
  shows "find_active_window fromiso loads net now_et
           = (map (\<lambda>q. API_URL @ ''?q='' @ quote_plus q)
                (title_variants (fst (get_window_boundaries now_et))
                 @ title_variants (snd (get_window_boundaries now_et))),
              Inr None)
       \<and> length (fst (find_active_window fromiso loads net now_et)) = 6"
proof -
  have s: "scan_response fromiso loads (instant now_et) (net k) = Inr None" for k
    using assms by (simp add: empty_result_skipped)
  have l: "length (title_variants t) = 3" for t
    by (simp add: title_variants_def Let_def)
  show ?thesis
    by (simp add: find_active_window_def split_beta sweep_all_skipped [OF s] l)
qed

theorem sweep_exhaustion_witness:
  "(\<forall>k. empty_result (always (Http 200 (Some (body []))) k))
   \<and> find_active_window iso_utc loads_strings (always (Http 200 (Some (body [])))) now0
       = (all_urls, Inr None)"
proof -
  have h: "\<forall>k. empty_result (always (Http 200 (Some (body []))) k)"
    by (simp add: always_def body_def)
  have u: "map (\<lambda>q. API_URL @ ''?q='' @ quote_plus q)
             (title_variants (fst (get_window_boundaries now0))
              @ title_variants (snd (get_window_boundaries now0))) = all_urls"
    by code_simp
  show ?thesis
    using h u sweep_exhaustion [OF h, of iso_utc loads_strings now0] by simp
qed

lemma sweep_found:
  "sweep fromiso loads now net k qs = (urls, Inr (Some d)) \<Longrightarrow>
     \<exists>j. scan_response fromiso loads now (net j) = Inr (Some d)"
proof (induction qs arbitrary: k urls)
  case Nil
  then show ?case by simp
next
  case (Cons q qs)
  show ?case
  proof (cases "scan_response fromiso loads now (net k)")
    case (Inl e)
    with Cons.prems show ?thesis by (simp add: Let_def)
  next
    case (Inr r)
    show ?thesis
    proof (cases r)
      case None
      with Inr Cons.prems obtain urls' where
        "sweep fromiso loads now net (Suc k) qs = (urls', Inr (Some d))"
        by (auto simp: Let_def split: prod.splits)
      then show ?thesis by (rule Cons.IH)
    next
      case (Some d')
      with Inr Cons.prems have "d' = d" by (simp add: Let_def)
      with Inr Some show ?thesis by blast
    qed
  qed
qed

lemma scan_events_found:
  "scan_events fromiso loads now evs = Inr (Some d) \<Longrightarrow>
     \<exists>ev \<in> set evs. scan_event fromiso loads now ev = Inr (Some d)"
  by (induction evs) (auto split: sum.splits option.splits)

lemma scan_response_found:
  "scan_response fromiso loads now r = Inr (Some d) \<Longrightarrow>
     \<exists>data events evs ev. r = Http 200 (Some data)
        \<and> py_get data ''events'' (JArr []) = Inr events \<and> py_iter events = Inr evs
        \<and> ev \<in> set evs \<and> scan_event fromiso loads now ev = Inr (Some d)"
  by (auto simp: scan_response_def andthen_def
      split: response.splits if_splits option.splits sum.splits dest!: scan_events_found)

lemma make_descriptor_ids:
  "make_descriptor loads ev m s e = Inr d \<Longrightarrow>
     \<exists>raw token_ids. py_key m ''clobTokenIds'' = Inr raw
        \<and> json_loads loads raw = Inr token_ids
        \<and> py_item token_ids 0 = Inr (yes_id d) \<and> py_item token_ids 1 = Inr (no_id d)"
  by (auto simp: make_descriptor_def andthen_def split: sum.splits)

lemma scan_event_found:
  "scan_event fromiso loads now ev = Inr (Some d) \<Longrightarrow>
     \<exists>m s e. event_times fromiso ev = Inr (Some (m, s, e))
        \<and> make_descriptor loads ev m s e = Inr d"
  by (auto simp: scan_event_def duration_filter_def liveness_filter_def Let_def andthen_def
      split: sum.splits option.splits if_splits)

lemma event_times_market:
  "event_times fromiso ev = Inr (Some (m, s, e)) \<Longrightarrow>
     \<exists>markets. py_get ev ''markets'' (JArr [JObj []]) = Inr markets
        \<and> py_item markets 0 = Inr m"
  by (auto simp: event_times_def andthen_def split: sum.splits if_splits)

lemma found_111_222:
  "find_active_window iso_utc loads_strings
     (always (Http 200 (Some (body [hit (live_market tokens_111_222)])))) now0
     = ([first_url], Inr (Some (found (JStr ''111'') (JStr ''222''))))"
  by code_simp

text \<open>
  C4, as amended. Every descriptor returned by \<open>find_active_window\<close> comes from a hit of
  one of the answers, and its \<open>yes_id\<close> and \<open>no_id\<close> are elements 0 and 1 of what
  \<open>json.loads\<close> makes of the \<open>clobTokenIds\<close> of the first market of that hit; nothing
  compares the two.
\<close>

theorem descriptor_token_ids:
  assumes "find_active_window fromiso loads net now_et = (urls, Inr (Some d))"
  shows "\<exists>k data events evs ev markets m raw token_ids.
           net k = Http 200 (Some data)
         \<and> py_get data ''events'' (JArr []) = Inr events \<and> py_iter events = Inr evs
         \<and> ev \<in> set evs
         \<and> py_get ev ''markets'' (JArr [JObj []]) = Inr markets \<and> py_item markets 0 = Inr m
         \<and> py_key m ''clobTokenIds'' = Inr raw \<and> json_loads loads raw = Inr token_ids
         \<and> py_item token_ids 0 = Inr (yes_id d) \<and> py_item token_ids 1 = Inr (no_id d)"
proof -
  from assms obtain k where
    "scan_response fromiso loads (instant now_et) (net k) = Inr (Some d)"
    by (auto simp: find_active_window_def split: prod.splits dest: sweep_found)
  then obtain data events evs ev where r: "net k = Http 200 (Some data)"
    "py_get data ''events'' (JArr []) = Inr events" "py_iter events = Inr evs" "ev \<in> set evs"
    and ev: "scan_event fromiso loads (instant now_et) ev = Inr (Some d)"
    by (blast dest: scan_response_found)
  from ev obtain m s e where t: "event_times fromiso ev = Inr (Some (m, s, e))"
    and md: "make_descriptor loads ev m s e = Inr d"
    by (blast dest: scan_event_found)
  from t obtain markets where mk: "py_get ev ''markets'' (JArr [JObj []]) = Inr markets"
    "py_item markets 0 = Inr m"
    by (blast dest: event_times_market)
  from md obtain raw token_ids where "py_key m ''clobTokenIds'' = Inr raw"
    "json_loads loads raw = Inr token_ids"
    "py_item token_ids 0 = Inr (yes_id d)" "py_item token_ids 1 = Inr (no_id d)"
    by (blast dest: make_descriptor_ids)
  with r mk show ?thesis by blast
qed

theorem descriptor_token_ids_witness:
  "find_active_window iso_utc loads_strings
     (always (Http 200 (Some (body [hit (live_market tokens_111_222)])))) now0
     = ([first_url], Inr (Some (found (JStr ''111'') (JStr ''222''))))
   \<and> (\<exists>raw token_ids.
         py_key (JObj (live_market tokens_111_222)) ''clobTokenIds'' = Inr raw
       \<and> json_loads loads_strings raw = Inr token_ids
       \<and> py_item token_ids 0 = Inr (JStr ''111'') \<and> py_item token_ids 1 = Inr (JStr ''222''))"
proof -
  from descriptor_token_ids [OF found_111_222]
  obtain k data events evs ev markets m raw token_ids where
    "always (Http 200 (Some (body [hit (live_market tokens_111_222)]))) k
       = Http 200 (Some data)"
    "py_get data ''events'' (JArr []) = Inr events" "py_iter events = Inr evs"
    "ev \<in> set evs"
    "py_get ev ''markets'' (JArr [JObj []]) = Inr markets" "py_item markets 0 = Inr m"
    and t: "py_key m ''clobTokenIds'' = Inr raw" "json_loads loads_strings raw = Inr token_ids"
    "py_item token_ids 0 = Inr (yes_id (found (JStr ''111'') (JStr ''222'')))"
    "py_item token_ids 1 = Inr (no_id (found (JStr ''111'') (JStr ''222'')))"
    by blast
  then have "m = JObj (live_market tokens_111_222)"
    by (auto simp: always_def body_def hit_def)
  with t found_111_222 show ?thesis
    by (auto simp: found_def)
qed

text \<open>
  C4 as stated fails: a live hit whose \<open>clobTokenIds\<close> names the same token twice is
  returned with \<open>yes_id = no_id\<close>.
\<close>

theorem equal_token_ids_returned:
  "find_active_window iso_utc loads_strings
     (always (Http 200 (Some (body [hit (live_market tokens_111_111)])))) now0
     = ([first_url], Inr (Some (found (JStr ''111'') (JStr ''111''))))
   \<and> yes_id (found (JStr ''111'') (JStr ''111'')) = no_id (found (JStr ''111'') (JStr ''111''))"
  by code_simp

text \<open>
  The part of C1 that the code keeps: a query whose request fails, whose status is not
  200, or whose body does not decode is skipped.
\<close>

lemma failed_query_skipped:
  "scan_response fromiso loads now NetworkFailure = Inr None"
  "status \<noteq> 200 \<Longrightarrow> scan_response fromiso loads now (Http status b) = Inr None"
  "scan_response fromiso loads now (Http status None) = Inr None"
  by (simp_all add: scan_response_def)

text \<open>
  C1. \<open>find_active_window\<close> should skip a query whose answer is incomplete and go on with
  the sweep. It does not: a live hit without \<open>clobTokenIds\<close> raises \<open>KeyError\<close> at the first
  query, and a hit whose start time is no timestamp raises \<open>ValueError\<close>; neither is inside
  the \<open>try\<close> of the request, and the remaining five queries are never made.
\<close>

theorem incomplete_hit_raises:
  "find_active_window iso_utc loads_strings
     (always (Http 200 (Some (body [hit market_without_tokens])))) now0
     = ([first_url], Inl KeyError)
   \<and> find_active_window iso_utc loads_strings
     (always (Http 200 (Some (body [hit market_bad_time])))) now0
     = ([first_url], Inl ValueError)"
  by code_simp

end
